theory Spec2Isabelle
  imports Complex_Main "HOL-Library.Word"
begin

unbundle bit_operations_syntax

section \<open>Result vocabulary (types.py)\<close>

datatype DetectionMethod = FILESYSTEM | MAGIC | LANGUAGE

datatype FileType =
    PYTHON | JAVASCRIPT | TYPESCRIPT | JAVA | C | CPP | RUST | GO | PHP | RUBY
  | SHELL | POWERSHELL | BATCH
  | HTML | CSS | XML | JSON | YAML
  | PDF | WORD | EXCEL | POWERPOINT | TEXT | MARKDOWN
  | JPEG | PNG | GIF | SVG | TIFF | BMP | WEBP
  | MP3 | MP4 | AVI | WAV | FLAC
  | ZIP | TAR | GZIP | RAR | SEVEN_ZIP
  | ELF | PE | MACH_O
  | CSV | TSV | LOG | CONFIG
  | BINARY | EMPTY | SYMLINK | DIRECTORY | UNKNOWN

text \<open>
  A path is the list of its components; the last one is \<open>Path.name\<close>.  Text is a list
  of 8-bit characters, each standing for the code point of the same number: the model
  covers Python strings over the Latin-1 repertoire, and code points above 255 are outside
  it.  Bytes are 8-bit words.  Confidence values and ratios are rationals: every constant of the source
  (0.1, 0.6, ..., 1.0) and every quotient it forms (an integer over 10, a count over a
  length of at most \<open>2^20\<close>) is compared only against such constants, and rounding to a
  double is monotone and keeps 0 and 1.
\<close>

type_synonym path = "string list"
type_synonym byte = "8 word"

record DetectionResult =
  file_path :: path
  file_type :: FileType
  test_type :: DetectionMethod
  confidence :: rat
  details :: "string option"

section \<open>String methods of Python used by the detector\<close>

definition newline :: char where
  "newline = CHR 0x0A"

text \<open>\<open>str.lower\<close> on one Latin-1 character: A-Z and the accented capitals
  0xC0-0xDE (without the multiplication sign 0xD7) move up by 32.\<close>

definition lower_char :: "char \<Rightarrow> char" where
  "lower_char c =
     (let n = (of_char c :: nat) in
      if (65 \<le> n \<and> n \<le> 90) \<or> (192 \<le> n \<and> n \<le> 222 \<and> n \<noteq> 215)
      then char_of (n + 32) else c)"

definition lower :: "string \<Rightarrow> string" where
  "lower s = map lower_char s"

text \<open>\<open>str.isspace\<close> on one character: tab to carriage return, the four separators
  0x1C-0x1F, space, NEL and the no-break space.\<close>

definition isspace :: "char \<Rightarrow> bool" where
  "isspace c =
     (let n = (of_char c :: nat) in
      (9 \<le> n \<and> n \<le> 13) \<or> (28 \<le> n \<and> n \<le> 32) \<or> n = 133 \<or> n = 160)"

text \<open>\<open>str.isprintable\<close> on one character: the ASCII graphic characters and space,
  and the Latin-1 graphic characters 0xA1-0xFF without the soft hyphen 0xAD.\<close>

definition isprintable :: "char \<Rightarrow> bool" where
  "isprintable c =
     (let n = (of_char c :: nat) in
      (32 \<le> n \<and> n \<le> 126) \<or> (161 \<le> n \<and> n \<noteq> 173))"

definition startswith :: "string \<Rightarrow> string \<Rightarrow> bool" where
  "startswith s p = (take (length p) s = p)"

definition endswith :: "string \<Rightarrow> string \<Rightarrow> bool" where
  "endswith s p = (length p \<le> length s \<and> drop (length s - length p) s = p)"

text \<open>\<open>sub in s\<close>: \<open>sub\<close> occurs in \<open>s\<close> as a contiguous run.\<close>

fun is_in :: "string \<Rightarrow> string \<Rightarrow> bool" where
  "is_in sub [] = (sub = [])"
| "is_in sub (c # cs) = (startswith (c # cs) sub \<or> is_in sub cs)"

text \<open>\<open>s.split(sep)\<close> for a one-character separator: never the empty list.\<close>

fun split :: "char \<Rightarrow> string \<Rightarrow> string list" where
  "split sep [] = [[]]"
| "split sep (c # cs) =
     (if c = sep then [] # split sep cs
      else (case split sep cs of
              [] \<Rightarrow> [[c]]
            | w # ws \<Rightarrow> (c # w) # ws))"

definition strip :: "string \<Rightarrow> string" where
  "strip s = rev (dropWhile isspace (rev (dropWhile isspace s)))"

text \<open>\<open>str(n)\<close> for a natural number.\<close>

definition digit :: "nat \<Rightarrow> char" where
  "digit d = char_of (48 + d)"

fun str_nat :: "nat \<Rightarrow> string" where
  "str_nat n = (if n < 10 then [digit n] else str_nat (n div 10) @ [digit (n mod 10)])"

declare str_nat.simps [simp del]

section \<open>pathlib: name, suffix, suffixes\<close>

definition name :: "path \<Rightarrow> string" where
  "name p = (if p = [] then [] else last p)"

text \<open>\<open>s.rfind(c)\<close>: the index of the last occurrence, or -1.\<close>

fun rfind :: "char \<Rightarrow> string \<Rightarrow> int" where
  "rfind c [] = -1"
| "rfind c (x # xs) =
     (let r = rfind c xs in
      if r \<ge> 0 then r + 1 else if x = c then 0 else -1)"

text \<open>
  \<^verbatim>\<open>
  i = name.rfind('.')
  if 0 < i < len(name) - 1: return name[i:]
  else: return ''
  \<close>
\<close>

definition suffix :: "path \<Rightarrow> string" where
  "suffix p =
     (let nm = name p; i = rfind (CHR ''.'') nm in
      if 0 < i \<and> i < int (length nm) - 1 then drop (nat i) nm else [])"

text \<open>
  \<^verbatim>\<open>
  if name.endswith('.'): return []
  name = name.lstrip('.')
  return ['.' + suffix for suffix in name.split('.')[1:]]
  \<close>
\<close>

definition suffixes :: "path \<Rightarrow> string list" where
  "suffixes p =
     (let nm = name p in
      if endswith nm ''.'' then []
      else map (\<lambda>s. CHR ''.'' # s)
             (tl (split (CHR ''.'') (dropWhile (\<lambda>c. c = CHR ''.'') nm))))"

section \<open>The world outside the detector\<close>

subsection \<open>Regular expressions\<close>

text \<open>
  The patterns of the source are written in abstract syntax.  Every quantifier of the
  source's patterns applies to a single character or character class, so a pattern is a
  sequence of items: \<open>^\<close>, a literal run, a class, or a class under \<open>*\<close> or \<open>+\<close>.
\<close>

datatype citem = Ch char | Range char char

datatype cclass =
    Lit char                \<comment> \<open>one literal character\<close>
  | Space                   \<comment> \<open>\<open>\s\<close>\<close>
  | Wordc                   \<comment> \<open>\<open>\w\<close>\<close>
  | OneOf "citem list"      \<comment> \<open>\<open>[...]\<close>\<close>
  | NoneOf "citem list"     \<comment> \<open>\<open>[^...]\<close>\<close>

datatype item =
    Bol                     \<comment> \<open>\<open>^\<close>\<close>
  | Chars string            \<comment> \<open>a run of literal characters\<close>
  | One cclass
  | Star cclass             \<comment> \<open>\<open>c*\<close>\<close>
  | Plus cclass             \<comment> \<open>\<open>c+\<close>\<close>

type_synonym regex = "item list"

datatype flag = MULTILINE | IGNORECASE

subsection \<open>Operating system, codecs and libraries\<close>

record stat_result =
  st_mode :: nat
  st_size :: nat

datatype json_outcome = Parsed | JSONDecodeError | OtherError

text \<open>
  What a call observes of its surroundings.  \<open>None\<close> stands for the exception of the
  call: \<open>OSError\<close> for \<open>os_stat\<close> (which follows symbolic links), \<open>os_lstat\<close> (which
  does not) and \<open>os_read\<close> (\<open>open(path, "rb")\<close> followed by \<open>read()\<close>);
  \<open>UnicodeDecodeError\<close> for \<open>codec\<close>, which is \<open>bytes.decode\<close> for the encodings
  other than latin-1.  \<open>re_search\<close> tells whether \<open>re.search\<close> finds a match, and
  \<open>json_loads\<close> how \<open>json.loads\<close> ends.  The file system does not change during one
  call of the detector.
\<close>

record env =
  os_stat :: "path \<Rightarrow> stat_result option"
  os_lstat :: "path \<Rightarrow> stat_result option"
  os_read :: "path \<Rightarrow> byte list option"
  codec :: "string \<Rightarrow> byte list \<Rightarrow> string option"
  re_search :: "regex \<Rightarrow> string \<Rightarrow> flag list \<Rightarrow> bool"
  json_loads :: "string \<Rightarrow> json_outcome"

text \<open>The \<open>stat\<close> module: the file-type mask is octal 170000, a directory is 040000,
  a regular file 100000, a symbolic link 120000, and the owner's execute bit is 100.\<close>

definition S_IFMT :: "nat \<Rightarrow> nat" where
  "S_IFMT mode = mode AND 0xF000"

definition S_ISDIR :: "nat \<Rightarrow> bool" where
  "S_ISDIR mode = (S_IFMT mode = 0x4000)"

definition S_ISREG :: "nat \<Rightarrow> bool" where
  "S_ISREG mode = (S_IFMT mode = 0x8000)"

definition S_ISLNK :: "nat \<Rightarrow> bool" where
  "S_ISLNK mode = (S_IFMT mode = 0xA000)"

definition S_IXUSR :: nat where
  "S_IXUSR = 0x40"

text \<open>
  \<open>Path.exists\<close>, \<open>Path.is_symlink\<close> and \<open>Path.is_file\<close>: the answer is no when the
  underlying \<open>stat\<close> or \<open>lstat\<close> fails, as in Python 3.13 and later.  (Earlier versions
  pass on an \<open>OSError\<close> other than ENOENT, ENOTDIR, EBADF and ELOOP; that case is outside
  the model.)
\<close>

definition path_exists :: "env \<Rightarrow> path \<Rightarrow> bool" where
  "path_exists E p = (os_stat E p \<noteq> None)"

definition is_symlink :: "env \<Rightarrow> path \<Rightarrow> bool" where
  "is_symlink E p = (case os_lstat E p of None \<Rightarrow> False | Some st \<Rightarrow> S_ISLNK (st_mode st))"

definition is_file :: "env \<Rightarrow> path \<Rightarrow> bool" where
  "is_file E p = (case os_stat E p of None \<Rightarrow> False | Some st \<Rightarrow> S_ISREG (st_mode st))"

text \<open>latin-1 maps every byte to the character of the same number.\<close>

definition latin_1 :: "byte list \<Rightarrow> string" where
  "latin_1 bs = map (\<lambda>b. char_of (unat b)) bs"

definition decode :: "env \<Rightarrow> byte list \<Rightarrow> string \<Rightarrow> string option" where
  "decode E bs encoding =
     (if encoding = ''latin-1'' then Some (latin_1 bs) else codec E encoding bs)"

section \<open>The detector (detector.py)\<close>

record FileTypeDetector =
  extension_map :: "(string \<times> FileType) list"
  shebang_map :: "(string \<times> FileType) list"
  language_patterns :: "(FileType \<times> (regex \<times> int) list) list"
  magic :: "(path \<Rightarrow> string option) option"

text \<open>
  The three tables are dictionaries whose literals repeat no key; they are kept as
  association lists in the order of the source, which is the order in which Python
  iterates them.  \<open>magic\<close> is the handle of the signature library, absent when the
  library cannot be loaded; applied to a path it gives the description, or \<open>None\<close>
  when \<open>from_file\<close> raises.
\<close>

definition build_extension_map :: "(string \<times> FileType) list" where
  "build_extension_map =
    [(''.py'', PYTHON), (''.js'', JAVASCRIPT), (''.ts'', TYPESCRIPT), (''.java'', JAVA),
     (''.c'', C), (''.cpp'', CPP), (''.cxx'', CPP), (''.cc'', CPP), (''.h'', C),
     (''.hpp'', CPP), (''.rs'', RUST), (''.go'', GO), (''.php'', PHP), (''.rb'', RUBY),
     (''.sh'', SHELL), (''.bash'', SHELL), (''.zsh'', SHELL), (''.fish'', SHELL),
     (''.ps1'', POWERSHELL), (''.bat'', BATCH), (''.cmd'', BATCH),
     (''.html'', HTML), (''.htm'', HTML), (''.css'', CSS), (''.xml'', XML),
     (''.json'', JSON), (''.yaml'', YAML), (''.yml'', YAML),
     (''.pdf'', PDF), (''.doc'', WORD), (''.docx'', WORD), (''.xls'', EXCEL),
     (''.xlsx'', EXCEL), (''.ppt'', POWERPOINT), (''.pptx'', POWERPOINT),
     (''.txt'', TEXT), (''.md'', MARKDOWN), (''.markdown'', MARKDOWN),
     (''.jpg'', JPEG), (''.jpeg'', JPEG), (''.png'', PNG), (''.gif'', GIF),
     (''.svg'', SVG), (''.tif'', TIFF), (''.tiff'', TIFF), (''.bmp'', BMP),
     (''.webp'', WEBP),
     (''.mp3'', MP3), (''.mp4'', MP4), (''.avi'', AVI), (''.wav'', WAV), (''.flac'', FLAC),
     (''.zip'', ZIP), (''.tar'', TAR), (''.gz'', GZIP), (''.tar.gz'', GZIP),
     (''.tgz'', GZIP), (''.rar'', RAR), (''.7z'', SEVEN_ZIP),
     (''.csv'', CSV), (''.tsv'', TSV), (''.log'', LOG), (''.conf'', CONFIG),
     (''.config'', CONFIG), (''.ini'', CONFIG), (''.cfg'', CONFIG)]"

definition build_shebang_map :: "(string \<times> FileType) list" where
  "build_shebang_map =
    [(''python'', PYTHON), (''node'', JAVASCRIPT), (''bash'', SHELL), (''sh'', SHELL),
     (''zsh'', SHELL), (''fish'', SHELL), (''php'', PHP), (''ruby'', RUBY),
     (''perl'', TEXT)]"

definition quote :: cclass where
  "quote = OneOf [Ch (CHR 0x22), Ch (CHR 0x27)]"

definition indent :: "string \<Rightarrow> regex" where
  "indent kw = [Bol, Star Space, Chars kw]"

text \<open>
  The entries follow the source's dictionaries line by line.  \<open>quote\<close> is the class
  \<^verbatim>\<open>["\']\<close> of the two quotation marks and \<open>indent kw\<close> is the pattern
  \<^verbatim>\<open>^\s*kw\<close>; \<open>Space\<close> is \<^verbatim>\<open>\s\<close> and \<open>Wordc\<close> is \<^verbatim>\<open>\w\<close>.
\<close>

definition python_patterns :: "(regex \<times> int) list" where
  "python_patterns =
    [(indent ''import'' @ [Plus Space, Plus Wordc], 3),
     (indent ''from'' @ [Plus Space, Plus Wordc, Plus Space, Chars ''import''], 3),
     (indent ''def'' @ [Plus Space, Plus Wordc, Star Space, Chars ''(''], 3),
     (indent ''class'' @ [Plus Space, Plus Wordc], 3),
     ([Chars ''if'', Plus Space, Chars ''__name__'', Star Space, Chars ''=='', Star Space,
       One quote, Chars ''__main__'', One quote], 5),
     (indent ''@'' @ [Plus Wordc], 2),
     ([Chars ''print'', Star Space, Chars ''(''], 2)]"

definition javascript_patterns :: "(regex \<times> int) list" where
  "javascript_patterns =
    [(indent ''function'' @ [Plus Space, Plus Wordc, Star Space, Chars ''(''], 3),
     (indent ''var'' @ [Plus Space, Plus Wordc, Star Space, Chars ''=''], 2),
     (indent ''let'' @ [Plus Space, Plus Wordc, Star Space, Chars ''=''], 2),
     (indent ''const'' @ [Plus Space, Plus Wordc, Star Space, Chars ''=''], 2),
     ([Chars ''console.log'', Star Space, Chars ''(''], 3),
     ([Chars ''require'', Star Space, Chars ''('', One quote], 3),
     ([Chars ''module.exports'', Star Space, Chars ''=''], 3),
     ([Chars ''=>''], 2)]"

definition java_patterns :: "(regex \<times> int) list" where
  "java_patterns =
    [(indent ''public'' @ [Plus Space, Chars ''class'', Plus Space, Plus Wordc], 5),
     (indent ''import'' @ [Plus Space, Chars ''java.''], 3),
     (indent ''package'' @ [Plus Space, Plus Wordc], 3),
     ([Chars ''public'', Plus Space, Chars ''static'', Plus Space, Chars ''void'',
       Plus Space, Chars ''main''], 5),
     ([Chars ''System.out.print''], 3),
     (indent ''@Override'', 2)]"

definition c_patterns :: "(regex \<times> int) list" where
  "c_patterns =
    [([Chars ''#include'', Star Space, Chars ''<'', Plus (NoneOf [Ch (CHR ''>'')]),
       Chars ''>''], 3),
     ([Chars ''#include'', Star Space, Chars [CHR 0x22], Plus (NoneOf [Ch (CHR 0x22)]),
       Chars [CHR 0x22]], 3),
     (indent ''int'' @ [Plus Space, Chars ''main'', Star Space, Chars ''(''], 4),
     ([Chars ''printf'', Star Space, Chars ''(''], 3),
     ([Chars ''malloc'', Star Space, Chars ''(''], 2),
     ([Chars ''free'', Star Space, Chars ''(''], 2)]"

definition cpp_patterns :: "(regex \<times> int) list" where
  "cpp_patterns =
    [([Chars ''#include'', Star Space, Chars ''<'', Plus (NoneOf [Ch (CHR ''>'')]),
       Chars ''>''], 3),
     ([Chars ''using'', Plus Space, Chars ''namespace'', Plus Space, Chars ''std''], 4),
     ([Chars ''std::''], 3),
     ([Chars ''cout'', Star Space, Chars ''<<''], 3),
     ([Chars ''cin'', Star Space, Chars ''>>''], 3),
     (indent ''class'' @ [Plus Space, Plus Wordc], 3)]"

definition html_patterns :: "(regex \<times> int) list" where
  "html_patterns =
    [([Chars ''<!DOCTYPE'', Plus Space, Chars ''html>''], 5),
     ([Chars ''<html'', Star (NoneOf [Ch (CHR ''>'')]), Chars ''>''], 4),
     ([Chars ''<head'', Star (NoneOf [Ch (CHR ''>'')]), Chars ''>''], 3),
     ([Chars ''<body'', Star (NoneOf [Ch (CHR ''>'')]), Chars ''>''], 3),
     ([Chars ''<div'', Star (NoneOf [Ch (CHR ''>'')]), Chars ''>''], 2),
     ([Chars ''<p'', Star (NoneOf [Ch (CHR ''>'')]), Chars ''>''], 2)]"

definition css_patterns :: "(regex \<times> int) list" where
  "css_patterns =
    [([Plus (NoneOf [Ch (CHR ''{'')]), Chars ''{'', Plus (NoneOf [Ch (CHR ''}'')]),
       Chars ''}''], 4),
     ([Chars ''@media'', One Space], 3),
     ([Chars ''@import'', One Space], 3),
     ([Chars ''color'', Star Space, Chars '':'', Star Space, Plus (NoneOf [Ch (CHR '';'')]),
       Chars '';''], 2),
     ([Chars ''background'', Star Space, Chars '':'', Star Space,
       Plus (NoneOf [Ch (CHR '';'')]), Chars '';''], 2)]"

definition build_language_patterns :: "(FileType \<times> (regex \<times> int) list) list" where
  "build_language_patterns =
    [(PYTHON, python_patterns), (JAVASCRIPT, javascript_patterns), (JAVA, java_patterns),
     (C, c_patterns), (CPP, cpp_patterns), (HTML, html_patterns), (CSS, css_patterns)]"

definition init :: "(path \<Rightarrow> string option) option \<Rightarrow> FileTypeDetector" where
  "init m =
     \<lparr>extension_map = build_extension_map,
      shebang_map = build_shebang_map,
      language_patterns = build_language_patterns,
      magic = m\<rparr>"

text \<open>
  A method of the source is split at its comments into blocks.  A block gives \<open>Some\<close>
  result where the source returns one, and \<open>None\<close> where control goes on to the next
  block; the method chains its blocks in the order of the source.
\<close>

subsection \<open>Stage 1: filesystem tests\<close>

text \<open>The block "Check executable permissions" (lines 161-174).\<close>

definition executable_rule :: "FileTypeDetector \<Rightarrow> path \<Rightarrow> stat_result \<Rightarrow> DetectionResult option" where
  "executable_rule self p file_stat =
     (if st_mode file_stat AND S_IXUSR \<noteq> 0 then
        (let sfx = lower (suffix p) in
         if sfx \<in> set [''.exe'', ''.dll'', ''.so'', ''.app''] then
           (case map_of (extension_map self) sfx of
              Some ft \<Rightarrow>
                Some \<lparr>file_path = p, file_type = ft, test_type = FILESYSTEM,
                      confidence = 9 / 10, details = Some ''Executable file''\<rparr>
            | None \<Rightarrow> None)
         else None)
      else None)"

text \<open>\<open>xs[-2:]\<close>\<close>

definition last_two :: "'a list \<Rightarrow> 'a list" where
  "last_two xs = drop (length xs - 2) xs"

text \<open>The block "Multiple extensions first" (lines 176-198).\<close>

definition multiple_extensions_rule :: "FileTypeDetector \<Rightarrow> path \<Rightarrow> DetectionResult option" where
  "multiple_extensions_rule self p =
     (if length (suffixes p) > 1 then
        (let combined_suffix = lower (concat (suffixes p)) in
         case map_of (extension_map self) combined_suffix of
           Some ft \<Rightarrow>
             Some \<lparr>file_path = p, file_type = ft, test_type = FILESYSTEM,
                   confidence = 8 / 10, details = Some (''Extension: '' @ combined_suffix)\<rparr>
         | None \<Rightarrow>
             (if length (suffixes p) \<ge> 2 then
                (let lt = lower (concat (last_two (suffixes p))) in
                 case map_of (extension_map self) lt of
                   Some ft \<Rightarrow>
                     Some \<lparr>file_path = p, file_type = ft, test_type = FILESYSTEM,
                           confidence = 8 / 10, details = Some (''Extension: '' @ lt)\<rparr>
                 | None \<Rightarrow> None)
              else None))
      else None)"

text \<open>The block "Single extension-based detection" (lines 200-209).\<close>

definition single_extension_rule :: "FileTypeDetector \<Rightarrow> path \<Rightarrow> DetectionResult option" where
  "single_extension_rule self p =
     (let sfx = lower (suffix p) in
      case map_of (extension_map self) sfx of
        Some ft \<Rightarrow>
          Some \<lparr>file_path = p, file_type = ft, test_type = FILESYSTEM,
                confidence = 8 / 10, details = Some (''Extension: '' @ sfx)\<rparr>
      | None \<Rightarrow> None)"

text \<open>\<open>_filesystem_tests\<close> (lines 127-211).\<close>

definition filesystem_tests :: "env \<Rightarrow> FileTypeDetector \<Rightarrow> path \<Rightarrow> DetectionResult option" where
  "filesystem_tests E self p =
     (case os_stat E p of
        None \<Rightarrow> None
      | Some file_stat \<Rightarrow>
          if S_ISDIR (st_mode file_stat) then
            Some \<lparr>file_path = p, file_type = DIRECTORY, test_type = FILESYSTEM,
                  confidence = 1, details = None\<rparr>
          else if is_symlink E p then
            Some \<lparr>file_path = p, file_type = SYMLINK, test_type = FILESYSTEM,
                  confidence = 1, details = None\<rparr>
          else if st_size file_stat = 0 then
            Some \<lparr>file_path = p, file_type = EMPTY, test_type = FILESYSTEM,
                  confidence = 1, details = None\<rparr>
          else
            (case executable_rule self p file_stat of
               Some r \<Rightarrow> Some r
             | None \<Rightarrow>
                 (case multiple_extensions_rule self p of
                    Some r \<Rightarrow> Some r
                  | None \<Rightarrow> single_extension_rule self p)))"

subsection \<open>Stage 2: magic tests\<close>

definition magic_mappings :: "(string \<times> FileType) list" where
  "magic_mappings =
    [(''pdf'', PDF), (''jpeg'', JPEG), (''png'', PNG), (''gif'', GIF), (''zip'', ZIP),
     (''gzip'', GZIP), (''tar'', TAR), (''rar'', RAR), (''elf'', ELF), (''pe32'', PE),
     (''mach-o'', MACH_O), (''mp3'', MP3), (''mp4'', MP4), (''avi'', AVI), (''wav'', WAV),
     (''html'', HTML), (''xml'', XML), (''json'', JSON)]"

text \<open>
  \<^verbatim>\<open>
  for pattern, file_type in table.items():
      if pattern in text:
          return ... file_type ...
  \<close>
  The loop over a table of substrings, used for the magic mappings and for the shebang
  map: the value of the first entry, in table order, whose key occurs in the text.
\<close>

fun first_substring :: "(string \<times> 'a) list \<Rightarrow> string \<Rightarrow> 'a option" where
  "first_substring [] s = None"
| "first_substring ((pattern, v) # rest) s =
     (if is_in pattern s then Some v else first_substring rest s)"

text \<open>\<open>_magic_tests\<close> (lines 213-280); any exception inside gives no result.\<close>

definition magic_tests :: "FileTypeDetector \<Rightarrow> path \<Rightarrow> DetectionResult option" where
  "magic_tests self p =
     (case magic self of
        None \<Rightarrow> None
      | Some from_file \<Rightarrow>
          (case from_file p of
             None \<Rightarrow> None
           | Some magic_result \<Rightarrow>
               (let magic_lower = lower magic_result in
                case first_substring magic_mappings magic_lower of
                  Some ft \<Rightarrow>
                    Some \<lparr>file_path = p, file_type = ft, test_type = MAGIC,
                          confidence = 9 / 10, details = Some (''Magic: '' @ magic_result)\<rparr>
                | None \<Rightarrow>
                    if is_in ''text'' magic_lower then
                      Some \<lparr>file_path = p, file_type = TEXT, test_type = MAGIC,
                            confidence = 6 / 10, details = Some (''Magic: '' @ magic_result)\<rparr>
                    else if list_ex (\<lambda>keyword. is_in keyword magic_lower)
                              [''binary'', ''data'', ''executable''] then
                      Some \<lparr>file_path = p, file_type = BINARY, test_type = MAGIC,
                            confidence = 7 / 10, details = Some (''Magic: '' @ magic_result)\<rparr>
                    else None)))"

subsection \<open>Reading a file as text\<close>

text \<open>\<open>_read_file_safely\<close> (lines 382-407): the list of encodings, the loop that
  returns the first successful decoding, and the method.\<close>

definition encodings :: "string list" where
  "encodings = [''utf-8'', ''utf-8-sig'', ''latin-1'', ''cp1252'']"

fun decode_first :: "env \<Rightarrow> byte list \<Rightarrow> string list \<Rightarrow> string option" where
  "decode_first E content_bytes [] = None"
| "decode_first E content_bytes (encoding # rest) =
     (case decode E content_bytes encoding of
        Some text \<Rightarrow> Some text
      | None \<Rightarrow> decode_first E content_bytes rest)"

text \<open>The default of the parameter \<open>max_size\<close>.\<close>

definition default_max_size :: nat where
  "default_max_size = 1024 * 1024"

definition read_file_safely :: "env \<Rightarrow> path \<Rightarrow> nat \<Rightarrow> string option" where
  "read_file_safely E p max_size =
     (case os_stat E p of
        None \<Rightarrow> None
      | Some st \<Rightarrow>
          (case os_read E p of
             None \<Rightarrow> None
           | Some data \<Rightarrow>
               (let content_bytes = (if st_size st > max_size then take 8192 data else data)
                in decode_first E content_bytes encodings)))"

definition is_text_content :: "string \<Rightarrow> bool" where
  "is_text_content content =
     (if content = [] then True
      else
        (let printable_chars = length (filter (\<lambda>c. isprintable c \<or> isspace c) content);
             ratio = (of_nat printable_chars :: rat) / of_nat (length content)
         in ratio > 7 / 10))"

definition appears_binary :: "byte list \<Rightarrow> bool" where
  "appears_binary data =
     (if data = [] then False
      else
        (let printable_count =
               length (filter (\<lambda>b. (32 \<le> b \<and> b \<le> 126) \<or> b \<in> set [9, 10, 13]) data);
             ratio = (of_nat printable_count :: rat) / of_nat (length data)
         in ratio < 7 / 10))"

subsection \<open>Stage 3: language tests\<close>

text \<open>The block "Check shebang line" (lines 296-308).\<close>

definition shebang_check :: "FileTypeDetector \<Rightarrow> path \<Rightarrow> string \<Rightarrow> DetectionResult option" where
  "shebang_check self p content =
     (let lines = split newline content in
      if lines \<noteq> [] \<and> startswith (hd lines) ''#!'' then
        (let shebang = strip (hd lines) in
         case first_substring (shebang_map self) shebang of
           Some ft \<Rightarrow>
             Some \<lparr>file_path = p, file_type = ft, test_type = LANGUAGE,
                   confidence = 9 / 10, details = Some (''Shebang: '' @ shebang)\<rparr>
         | None \<Rightarrow> None)
      else None)"

text \<open>
  \<^verbatim>\<open>
  for pattern, weight in patterns.items():
      if re.search(pattern, content, re.MULTILINE | re.IGNORECASE):
          score += weight
          matches.append(pattern)
  \<close>
  The inner loop carries the score and the list of matching patterns.
\<close>

fun score_patterns :: "env \<Rightarrow> string \<Rightarrow> (regex \<times> int) list \<Rightarrow> int \<times> regex list \<Rightarrow> int \<times> regex list" where
  "score_patterns E content [] (score, matches) = (score, matches)"
| "score_patterns E content ((pattern, weight) # rest) (score, matches) =
     (if re_search E pattern content [MULTILINE, IGNORECASE]
      then score_patterns E content rest (score + weight, matches @ [pattern])
      else score_patterns E content rest (score, matches))"

text \<open>The block "Pattern-based language detection" (lines 310-327): the outer loop
  returns at the first category whose score reaches 3.\<close>

fun pattern_detection :: "env \<Rightarrow> path \<Rightarrow> string \<Rightarrow> (FileType \<times> (regex \<times> int) list) list \<Rightarrow> DetectionResult option" where
  "pattern_detection E p content [] = None"
| "pattern_detection E p content ((ft, patterns) # rest) =
     (case score_patterns E content patterns (0, []) of
        (score, matches) \<Rightarrow>
          if score \<ge> 3 then
            Some \<lparr>file_path = p, file_type = ft, test_type = LANGUAGE,
                  confidence = min (of_int score / 10) 1,
                  details = Some (''Language patterns: '' @ str_nat (length matches) @ '' matches'')\<rparr>
          else pattern_detection E p content rest)"

text \<open>The pattern \<^verbatim>\<open>^[a-zA-Z_][a-zA-Z0-9_]*:\s*\<close> of the YAML check.\<close>

definition yaml_pattern :: regex where
  "yaml_pattern =
     [Bol,
      One (OneOf [Range (CHR ''a'') (CHR ''z''), Range (CHR ''A'') (CHR ''Z''), Ch (CHR ''_'')]),
      Star (OneOf [Range (CHR ''a'') (CHR ''z''), Range (CHR ''A'') (CHR ''Z''),
                   Range (CHR ''0'') (CHR ''9''), Ch (CHR ''_'')]),
      Chars '':'', Star Space]"

definition yaml_csv_text :: "env \<Rightarrow> path \<Rightarrow> string \<Rightarrow> DetectionResult option" where
  "yaml_csv_text E p content =
     (if re_search E yaml_pattern content [MULTILINE] then
        Some \<lparr>file_path = p, file_type = YAML, test_type = LANGUAGE,
              confidence = 7 / 10, details = Some ''YAML-like structure''\<rparr>
      else if is_in '','' content \<and> is_in [newline] content \<and>
              list_all (\<lambda>line. is_in '','' line)
                (filter (\<lambda>line. strip line \<noteq> []) (take 5 (split newline content))) then
        Some \<lparr>file_path = p, file_type = CSV, test_type = LANGUAGE,
              confidence = 7 / 10, details = Some ''CSV-like structure''\<rparr>
      else
        Some \<lparr>file_path = p, file_type = TEXT, test_type = LANGUAGE,
              confidence = 6 / 10, details = None\<rparr>)"

text \<open>
  The block "Generic text file detection" (lines 329-375); \<open>yaml_csv_text\<close> is its
  part after the JSON check.  \<open>json.loads\<close> may parse, raise \<open>JSONDecodeError\<close> (the
  check goes on) or raise something else, which the handler around the whole stage
  turns into "no result".
\<close>

definition generic_text_detection :: "env \<Rightarrow> path \<Rightarrow> string \<Rightarrow> DetectionResult option" where
  "generic_text_detection E p content =
     (if is_text_content content then
        (if startswith (strip content) ''{'' \<and> endswith (strip content) ''}'' then
           (case json_loads E content of
              Parsed \<Rightarrow>
                Some \<lparr>file_path = p, file_type = JSON, test_type = LANGUAGE,
                      confidence = 8 / 10, details = Some ''Valid JSON structure''\<rparr>
            | JSONDecodeError \<Rightarrow> yaml_csv_text E p content
            | OtherError \<Rightarrow> None)
         else yaml_csv_text E p content)
      else None)"

text \<open>\<open>_language_tests\<close> (lines 282-380).\<close>

definition language_tests :: "env \<Rightarrow> FileTypeDetector \<Rightarrow> path \<Rightarrow> DetectionResult option" where
  "language_tests E self p =
     (case read_file_safely E p default_max_size of
        None \<Rightarrow>
          Some \<lparr>file_path = p, file_type = BINARY, test_type = LANGUAGE,
                confidence = 8 / 10, details = Some ''Non-text content''\<rparr>
      | Some content \<Rightarrow>
          (case shebang_check self p content of
             Some r \<Rightarrow> Some r
           | None \<Rightarrow>
               (case pattern_detection E p content (language_patterns self) of
                  Some r \<Rightarrow> Some r
                | None \<Rightarrow> generic_text_detection E p content)))"

subsection \<open>The three-stage detection\<close>

text \<open>The block "Final fallback" (lines 99-117): a sample of 512 bytes of a non-empty
  regular file; an \<open>OSError\<close> gives no result.\<close>

definition binary_fallback :: "env \<Rightarrow> path \<Rightarrow> DetectionResult option" where
  "binary_fallback E p =
     (if is_file E p \<and> (case os_stat E p of None \<Rightarrow> False | Some st \<Rightarrow> st_size st > 0) then
        (case os_read E p of
           None \<Rightarrow> None
         | Some data \<Rightarrow>
             (let sample = take 512 data;
                  null_bytes = count_list sample 0
              in if null_bytes > 0 \<or> appears_binary sample then
                   Some \<lparr>file_path = p, file_type = BINARY, test_type = LANGUAGE,
                         confidence = 8 / 10, details = Some ''Binary content detected''\<rparr>
                 else None))
      else None)"

definition default_fallback :: "path \<Rightarrow> DetectionResult" where
  "default_fallback p =
     \<lparr>file_path = p, file_type = UNKNOWN, test_type = FILESYSTEM,
      confidence = 1 / 10, details = None\<rparr>"

text \<open>\<open>detect_file_type\<close> (lines 60-125).\<close>

definition detect_file_type :: "env \<Rightarrow> FileTypeDetector \<Rightarrow> path \<Rightarrow> DetectionResult" where
  "detect_file_type E self p =
     (if \<not> path_exists E p then
        \<lparr>file_path = p, file_type = UNKNOWN, test_type = FILESYSTEM,
         confidence = 1, details = Some ''File not found''\<rparr>
      else
        (case filesystem_tests E self p of
           Some r \<Rightarrow> r
         | None \<Rightarrow>
             (case magic_tests self p of
                Some r \<Rightarrow> r
              | None \<Rightarrow>
                  (case language_tests E self p of
                     Some r \<Rightarrow> r
                   | None \<Rightarrow>
                       (case binary_fallback E p of
                          Some r \<Rightarrow> r
                        | None \<Rightarrow> default_fallback p)))))"

section \<open>A concrete world for evaluation\<close>

subsection \<open>A matcher for the patterns\<close>

text \<open>
  \<open>re.search\<close> on the abstract syntax above, for text over Latin-1: a match may start
  at any position; \<open>^\<close> holds at the start of the text and, under \<open>MULTILINE\<close>, after
  every newline; under \<open>IGNORECASE\<close> a literal matches both of its cases.
\<close>

definition upper_char :: "char \<Rightarrow> char" where
  "upper_char c =
     (let n = (of_char c :: nat) in
      if (97 \<le> n \<and> n \<le> 122) \<or> (224 \<le> n \<and> n \<le> 254 \<and> n \<noteq> 247)
      then char_of (n - 32) else c)"

definition isalnum :: "char \<Rightarrow> bool" where
  "isalnum c =
     (let n = (of_char c :: nat) in
      (48 \<le> n \<and> n \<le> 57) \<or> (65 \<le> n \<and> n \<le> 90) \<or> (97 \<le> n \<and> n \<le> 122) \<or>
      n \<in> set [170, 178, 179, 181, 185, 186, 188, 189, 190] \<or>
      (192 \<le> n \<and> n \<noteq> 215 \<and> n \<noteq> 247))"

fun citem_has :: "citem \<Rightarrow> char \<Rightarrow> bool" where
  "citem_has (Ch c) x = (x = c)"
| "citem_has (Range a b) x =
     ((of_char a :: nat) \<le> of_char x \<and> (of_char x :: nat) \<le> of_char b)"

fun class_has :: "bool \<Rightarrow> cclass \<Rightarrow> char \<Rightarrow> bool" where
  "class_has ic (Lit c) x = (if ic then lower_char x = lower_char c else x = c)"
| "class_has ic Space x = isspace x"
| "class_has ic Wordc x = (isalnum x \<or> x = CHR ''_'')"
| "class_has ic (OneOf its) x =
     list_ex (\<lambda>it. citem_has it x \<or>
                   (ic \<and> (citem_has it (lower_char x) \<or> citem_has it (upper_char x)))) its"
| "class_has ic (NoneOf its) x =
     (\<not> list_ex (\<lambda>it. citem_has it x \<or>
                     (ic \<and> (citem_has it (lower_char x) \<or> citem_has it (upper_char x)))) its)"

text \<open>\<open>rmatch ml ic r bol s\<close>: the pattern \<open>r\<close> matches a prefix of \<open>s\<close>, where \<open>bol\<close>
  tells whether \<open>^\<close> holds at the current position.\<close>

fun rmatch :: "bool \<Rightarrow> bool \<Rightarrow> regex \<Rightarrow> bool \<Rightarrow> string \<Rightarrow> bool" where
  "rmatch ml ic [] bol s = True"
| "rmatch ml ic (Bol # r) bol s = (bol \<and> rmatch ml ic r bol s)"
| "rmatch ml ic (Chars [] # r) bol s = rmatch ml ic r bol s"
| "rmatch ml ic (Chars (c # cs) # r) bol [] = False"
| "rmatch ml ic (Chars (c # cs) # r) bol (x # xs) =
     (class_has ic (Lit c) x \<and> rmatch ml ic (Chars cs # r) (ml \<and> x = newline) xs)"
| "rmatch ml ic (One c # r) bol [] = False"
| "rmatch ml ic (One c # r) bol (x # xs) =
     (class_has ic c x \<and> rmatch ml ic r (ml \<and> x = newline) xs)"
| "rmatch ml ic (Star c # r) bol [] = rmatch ml ic r bol []"
| "rmatch ml ic (Star c # r) bol (x # xs) =
     (rmatch ml ic r bol (x # xs) \<or>
      (class_has ic c x \<and> rmatch ml ic (Star c # r) (ml \<and> x = newline) xs))"
| "rmatch ml ic (Plus c # r) bol [] = False"
| "rmatch ml ic (Plus c # r) bol (x # xs) =
     (class_has ic c x \<and> rmatch ml ic (Star c # r) (ml \<and> x = newline) xs)"

fun search_from :: "bool \<Rightarrow> bool \<Rightarrow> regex \<Rightarrow> bool \<Rightarrow> string \<Rightarrow> bool" where
  "search_from ml ic r bol [] = rmatch ml ic r bol []"
| "search_from ml ic r bol (x # xs) =
     (rmatch ml ic r bol (x # xs) \<or> search_from ml ic r (ml \<and> x = newline) xs)"

definition sre_search :: "regex \<Rightarrow> string \<Rightarrow> flag list \<Rightarrow> bool" where
  "sre_search pattern s flags =
     search_from (MULTILINE \<in> set flags) (IGNORECASE \<in> set flags) pattern True s"

subsection \<open>Sample files\<close>

text \<open>
  A machine with a handful of entries under \<open>/tmp\<close>, each holding 7-bit bytes, on which
  utf-8, utf-8-sig and cp1252 all give back the bytes as characters.  None of the files
  starts with a brace, so \<open>json.loads\<close> is never reached on them.
\<close>

definition ascii :: "string \<Rightarrow> byte list" where
  "ascii s = map (\<lambda>c. of_nat (of_char c)) s"

definition ascii_codec :: "string \<Rightarrow> byte list \<Rightarrow> string option" where
  "ascii_codec encoding bs = (if list_all (\<lambda>b. b < 128) bs then Some (latin_1 bs) else None)"

definition hello :: path where "hello = [''tmp'', ''hello'']"
definition secret :: path where "secret = [''tmp'', ''secret'']"
definition script :: path where "script = [''tmp'', ''script'']"
definition archive :: path where "archive = [''tmp'', ''archive.tar.gz'']"
definition dangling :: path where "dangling = [''tmp'', ''dangling'']"
definition missing :: path where "missing = [''tmp'', ''missing'']"
definition mixed :: path where "mixed = [''tmp'', ''mixed'']"

definition hello_text :: string where
  "hello_text = ''print('hi')''"

definition script_text :: string where
  "script_text = ''#!/usr/bin/env python3'' @ [newline] @ ''print(1)'' @ [newline]"

definition class_text :: string where
  "class_text = ''class A''"

definition mixed_text :: string where
  "mixed_text = ''aaaaaaa'' @ [CHR 0x01, CHR 0x01, CHR 0x01]"

text \<open>Modes: 0x81A4 is a regular file with permissions 644, 0x81ED one with 755,
  0x8000 one with no permission at all, 0xA1FF a symbolic link.\<close>

definition sample_stat :: "path \<Rightarrow> stat_result option" where
  "sample_stat =
     map_of
       [(hello, \<lparr>st_mode = 0x81A4, st_size = 11\<rparr>),
        (secret, \<lparr>st_mode = 0x8000, st_size = 5\<rparr>),
        (script, \<lparr>st_mode = 0x81ED, st_size = 32\<rparr>),
        (archive, \<lparr>st_mode = 0x81A4, st_size = 23\<rparr>),
        (mixed, \<lparr>st_mode = 0x81A4, st_size = 10\<rparr>)]"

definition sample_lstat :: "path \<Rightarrow> stat_result option" where
  "sample_lstat p =
     (if p = dangling then Some \<lparr>st_mode = 0xA1FF, st_size = 7\<rparr> else sample_stat p)"

definition sample_read :: "path \<Rightarrow> byte list option" where
  "sample_read =
     map_of
       [(hello, ascii hello_text),
        (script, ascii script_text),
        (archive, ascii ''fake compressed content''),
        (mixed, ascii mixed_text)]"

definition sample_env :: env where
  "sample_env =
     \<lparr>os_stat = sample_stat, os_lstat = sample_lstat, os_read = sample_read,
      codec = ascii_codec, re_search = sre_search,
      json_loads = (\<lambda>s. JSONDecodeError)\<rparr>"


section \<open>The scoring step in the words of the specification\<close>

text \<open>The patterns of a category that match, the sum of their weights, and the result
  reported for a category with a given score and number of matching patterns.\<close>

definition spec_matching :: "env \<Rightarrow> string \<Rightarrow> (regex \<times> int) list \<Rightarrow> (regex \<times> int) list" where
  "spec_matching E content patterns =
     filter (\<lambda>(pattern, weight). re_search E pattern content [MULTILINE, IGNORECASE]) patterns"

definition spec_score :: "env \<Rightarrow> string \<Rightarrow> (regex \<times> int) list \<Rightarrow> int" where
  "spec_score E content patterns = sum_list (map snd (spec_matching E content patterns))"

definition spec_result :: "env \<Rightarrow> path \<Rightarrow> string \<Rightarrow> FileType \<times> (regex \<times> int) list \<Rightarrow> DetectionResult" where
  "spec_result E p content entry =
     \<lparr>file_path = p, file_type = fst entry, test_type = LANGUAGE,
      confidence = min (of_int (spec_score E content (snd entry)) / 10) 1,
      details = Some (''Language patterns: '' @
                      str_nat (length (spec_matching E content (snd entry))) @ '' matches'')\<rparr>"

section \<open>What each stage can return\<close>

lemma executable_rule_Some:
  "executable_rule self p st = Some r \<Longrightarrow>
     confidence r = 9 / 10 \<and> details r = Some ''Executable file''"
  by (auto simp: executable_rule_def Let_def split: if_splits option.splits)

lemma multiple_extensions_rule_Some:
  "multiple_extensions_rule self p = Some r \<Longrightarrow>
     confidence r = 8 / 10 \<and> details r \<noteq> Some ''Executable file''"
  by (auto simp: multiple_extensions_rule_def Let_def split: if_splits option.splits)

lemma single_extension_rule_Some:
  "single_extension_rule self p = Some r \<Longrightarrow>
     confidence r = 8 / 10 \<and> details r \<noteq> Some ''Executable file''"
  by (auto simp: single_extension_rule_def Let_def split: if_splits option.splits)

lemma filesystem_tests_cases:
  "filesystem_tests E self p = Some r \<Longrightarrow>
     (confidence r = 1 \<and> details r = None) \<or>
     (\<exists>st. executable_rule self p st = Some r) \<or>
     multiple_extensions_rule self p = Some r \<or>
     single_extension_rule self p = Some r"
  unfolding filesystem_tests_def
  by (auto split: option.splits if_splits)

lemma filesystem_tests_conf:
  assumes "filesystem_tests E self p = Some r"
  shows "0 < confidence r \<and> confidence r \<le> 1"
  using filesystem_tests_cases [OF assms]
  by (auto dest: executable_rule_Some multiple_extensions_rule_Some single_extension_rule_Some)

lemma magic_tests_Some:
  "magic_tests self p = Some r \<Longrightarrow>
     0 < confidence r \<and> confidence r \<le> 1 \<and> details r \<noteq> Some ''Executable file''"
  by (auto simp: magic_tests_def Let_def split: if_splits option.splits)

lemma pattern_detection_Some:
  "pattern_detection E p content cat = Some r \<Longrightarrow>
     0 < confidence r \<and> confidence r \<le> 1 \<and>
     details r \<noteq> Some ''Executable file'' \<and> details r \<noteq> Some ''Non-text content''"
proof (induction cat)
  case Nil
  then show ?case by simp
next
  case (Cons c cat)
  obtain ft ps where c: "c = (ft, ps)" by (cases c)
  obtain sc ms where s: "score_patterns E content ps (0, []) = (sc, ms)"
    by (cases "score_patterns E content ps (0, [])")
  show ?case
  proof (cases "sc \<ge> 3")
    case True
    then have "(0::rat) < of_int sc" by simp
    then have "(0::rat) < min (of_int sc / 10) 1" by simp
    with Cons.prems c s True show ?thesis by auto
  next
    case False
    with Cons c s show ?thesis by simp
  qed
qed

lemma shebang_check_Some:
  "shebang_check self p content = Some r \<Longrightarrow>
     confidence r = 9 / 10 \<and>
     details r \<noteq> Some ''Executable file'' \<and> details r \<noteq> Some ''Non-text content''"
  by (auto simp: shebang_check_def Let_def split: if_splits option.splits)

lemma yaml_csv_text_Some:
  "yaml_csv_text E p content = Some r \<Longrightarrow>
     0 < confidence r \<and> confidence r \<le> 1 \<and>
     details r \<noteq> Some ''Executable file'' \<and> details r \<noteq> Some ''Non-text content''"
  by (auto simp: yaml_csv_text_def split: if_splits)

lemma generic_text_detection_Some:
  "generic_text_detection E p content = Some r \<Longrightarrow>
     0 < confidence r \<and> confidence r \<le> 1 \<and>
     details r \<noteq> Some ''Executable file'' \<and> details r \<noteq> Some ''Non-text content''"
  by (auto simp: generic_text_detection_def split: if_splits json_outcome.splits
      dest: yaml_csv_text_Some)

lemma language_tests_Some:
  "language_tests E self p = Some r \<Longrightarrow>
     0 < confidence r \<and> confidence r \<le> 1 \<and> details r \<noteq> Some ''Executable file''"
  unfolding language_tests_def
  by (auto split: option.splits
      dest: shebang_check_Some pattern_detection_Some generic_text_detection_Some)

lemma binary_fallback_Some:
  "binary_fallback E p = Some r \<Longrightarrow>
     confidence r = 8 / 10 \<and> details r = Some ''Binary content detected''"
  by (auto simp: binary_fallback_def Let_def split: if_splits option.splits)

lemma executable_rule_init: "executable_rule (init m) p st = None"
  by (simp add: executable_rule_def init_def build_extension_map_def Let_def)

lemma filesystem_tests_init_details:
  assumes "filesystem_tests E (init m) p = Some r"
  shows "details r \<noteq> Some ''Executable file''"
  using filesystem_tests_cases [OF assms]
  by (auto simp: executable_rule_init
      dest: multiple_extensions_rule_Some single_extension_rule_Some)

section \<open>Character tables for evaluation\<close>

text \<open>The character functions on the characters of the patterns and of the sample texts.\<close>

lemma lower_char_table:
  "lower_char (CHR 0x01) = CHR 0x01" "lower_char (CHR '' '') = CHR '' ''"
  "lower_char (CHR ''!'') = CHR ''!''" "lower_char (CHR 0x22) = CHR 0x22"
  "lower_char (CHR ''#'') = CHR ''#''" "lower_char (CHR 0x27) = CHR 0x27"
  "lower_char (CHR ''('') = CHR ''(''" "lower_char (CHR '')'') = CHR '')''"
  "lower_char (CHR ''.'') = CHR ''.''" "lower_char (CHR '':'') = CHR '':''"
  "lower_char (CHR '';'') = CHR '';''" "lower_char (CHR ''<'') = CHR ''<''"
  "lower_char (CHR ''='') = CHR ''=''" "lower_char (CHR ''>'') = CHR ''>''"
  "lower_char (CHR ''@'') = CHR ''@''" "lower_char (CHR ''A'') = CHR ''a''"
  "lower_char (CHR ''C'') = CHR ''c''" "lower_char (CHR ''D'') = CHR ''d''"
  "lower_char (CHR ''E'') = CHR ''e''" "lower_char (CHR ''O'') = CHR ''o''"
  "lower_char (CHR ''P'') = CHR ''p''" "lower_char (CHR ''S'') = CHR ''s''"
  "lower_char (CHR ''T'') = CHR ''t''" "lower_char (CHR ''Y'') = CHR ''y''"
  "lower_char (CHR ''_'') = CHR ''_''" "lower_char (CHR ''a'') = CHR ''a''"
  "lower_char (CHR ''b'') = CHR ''b''" "lower_char (CHR ''c'') = CHR ''c''"
  "lower_char (CHR ''d'') = CHR ''d''" "lower_char (CHR ''e'') = CHR ''e''"
  "lower_char (CHR ''f'') = CHR ''f''" "lower_char (CHR ''g'') = CHR ''g''"
  "lower_char (CHR ''h'') = CHR ''h''" "lower_char (CHR ''i'') = CHR ''i''"
  "lower_char (CHR ''j'') = CHR ''j''" "lower_char (CHR ''k'') = CHR ''k''"
  "lower_char (CHR ''l'') = CHR ''l''" "lower_char (CHR ''m'') = CHR ''m''"
  "lower_char (CHR ''n'') = CHR ''n''" "lower_char (CHR ''o'') = CHR ''o''"
  "lower_char (CHR ''p'') = CHR ''p''" "lower_char (CHR ''q'') = CHR ''q''"
  "lower_char (CHR ''r'') = CHR ''r''" "lower_char (CHR ''s'') = CHR ''s''"
  "lower_char (CHR ''t'') = CHR ''t''" "lower_char (CHR ''u'') = CHR ''u''"
  "lower_char (CHR ''v'') = CHR ''v''" "lower_char (CHR ''x'') = CHR ''x''"
  "lower_char (CHR ''y'') = CHR ''y''" "lower_char (CHR ''{'') = CHR ''{''"
  "lower_char (CHR ''}'') = CHR ''}''"
  by (simp_all add: lower_char_def char_of_eq_iff)

lemma upper_char_table:
  "upper_char (CHR 0x01) = CHR 0x01" "upper_char (CHR '' '') = CHR '' ''"
  "upper_char (CHR 0x27) = CHR 0x27" "upper_char (CHR ''('') = CHR ''(''"
  "upper_char (CHR '')'') = CHR '')''" "upper_char (CHR ''A'') = CHR ''A''"
  "upper_char (CHR ''a'') = CHR ''A''" "upper_char (CHR ''c'') = CHR ''C''"
  "upper_char (CHR ''h'') = CHR ''H''" "upper_char (CHR ''i'') = CHR ''I''"
  "upper_char (CHR ''l'') = CHR ''L''" "upper_char (CHR ''n'') = CHR ''N''"
  "upper_char (CHR ''p'') = CHR ''P''" "upper_char (CHR ''r'') = CHR ''R''"
  "upper_char (CHR ''s'') = CHR ''S''" "upper_char (CHR ''t'') = CHR ''T''"
  by (simp_all add: upper_char_def char_of_eq_iff)

lemma isspace_table:
  "isspace (CHR 0x01) = False" "isspace (CHR '' '') = True" "isspace (CHR 0x27) = False"
  "isspace (CHR ''('') = False" "isspace (CHR '')'') = False" "isspace (CHR ''A'') = False"
  "isspace (CHR ''a'') = False" "isspace (CHR ''c'') = False" "isspace (CHR ''h'') = False"
  "isspace (CHR ''i'') = False" "isspace (CHR ''l'') = False" "isspace (CHR ''n'') = False"
  "isspace (CHR ''p'') = False" "isspace (CHR ''r'') = False" "isspace (CHR ''s'') = False"
  "isspace (CHR ''t'') = False"
  by (simp_all add: isspace_def)

lemma isalnum_table:
  "isalnum (CHR 0x01) = False" "isalnum (CHR '' '') = False" "isalnum (CHR 0x27) = False"
  "isalnum (CHR ''('') = False" "isalnum (CHR '')'') = False" "isalnum (CHR ''A'') = True"
  "isalnum (CHR ''a'') = True" "isalnum (CHR ''c'') = True" "isalnum (CHR ''h'') = True"
  "isalnum (CHR ''i'') = True" "isalnum (CHR ''l'') = True" "isalnum (CHR ''n'') = True"
  "isalnum (CHR ''p'') = True" "isalnum (CHR ''r'') = True" "isalnum (CHR ''s'') = True"
  "isalnum (CHR ''t'') = True"
  by (simp_all add: isalnum_def)

lemmas matcher_simps = sre_search_def newline_def
  lower_char_table upper_char_table isspace_table isalnum_table

lemma latin_1_ascii: "latin_1 (ascii s) = s"
  by (induction s) (simp_all add: latin_1_def ascii_def unat_of_nat)

section \<open>Facts about the library functions and the stages\<close>

lemma rfind_absent: "c \<notin> set s \<Longrightarrow> rfind c s = -1"
  by (induction s) (auto simp: Let_def)

lemma split_absent: "sep \<notin> set s \<Longrightarrow> split sep s = [s]"
  by (induction s) auto

lemma endswith_member: "endswith s [c] \<Longrightarrow> c \<in> set s"
proof -
  assume "endswith s [c]"
  then have "drop (length s - 1) s = [c]" by (simp add: endswith_def)
  then have "c \<in> set (drop (length s - 1) s)" by simp
  then show ?thesis by (rule in_set_dropD)
qed

lemma no_dot_suffix: "CHR ''.'' \<notin> set (name p) \<Longrightarrow> suffix p = []"
  by (simp add: suffix_def Let_def rfind_absent)

lemma no_dot_suffixes:
  assumes "CHR ''.'' \<notin> set (name p)"
  shows "suffixes p = []"
proof -
  have "\<not> endswith (name p) ''.''" using assms endswith_member by blast
  moreover have "dropWhile (\<lambda>c. c = CHR ''.'') (name p) = name p"
    using assms by (cases "name p") auto
  ultimately show ?thesis using assms by (simp add: suffixes_def Let_def split_absent)
qed

lemma empty_not_extension: "map_of build_extension_map [] = None"
  by (simp add: build_extension_map_def)

lemma no_suffix_rules:
  assumes "suffix p = []" "suffixes p = []"
  shows "multiple_extensions_rule (init m) p = None" "single_extension_rule (init m) p = None"
  using assms
  by (simp_all add: multiple_extensions_rule_def single_extension_rule_def lower_def init_def
      empty_not_extension)

lemma filesystem_tests_regular:
  assumes "os_stat E p = Some st" "\<not> S_ISDIR (st_mode st)" "\<not> is_symlink E p" "st_size st \<noteq> 0"
  shows "filesystem_tests E (init m) p =
           (case multiple_extensions_rule (init m) p of
              Some r \<Rightarrow> Some r
            | None \<Rightarrow> single_extension_rule (init m) p)"
  using assms by (simp add: filesystem_tests_def executable_rule_init)

lemma S_ISREG_not_DIR: "S_ISREG mode \<Longrightarrow> \<not> S_ISDIR mode"
  by (simp add: S_ISREG_def S_ISDIR_def)

lemma decode_first_utf8:
  "codec E ''utf-8'' bs = Some text \<Longrightarrow> decode_first E bs encodings = Some text"
  by (simp add: encodings_def decode_def)

lemma read_file_safely_utf8:
  assumes "os_stat E p = Some st" "os_read E p = Some bs" "length bs \<le> 8192"
    "codec E ''utf-8'' bs = Some text"
  shows "read_file_safely E p max_size = Some text"
  using assms by (simp add: read_file_safely_def decode_first_utf8)

lemma magic_tests_absent: "magic_tests (init None) p = None"
  by (simp add: magic_tests_def init_def)

section \<open>The sample files evaluated\<close>

lemma sample_fields:
  "os_stat sample_env = sample_stat" "os_lstat sample_env = sample_lstat"
  "os_read sample_env = sample_read" "codec sample_env = ascii_codec"
  "re_search sample_env = sre_search"
  by (simp_all add: sample_env_def)

lemmas paths = hello_def secret_def script_def archive_def dangling_def missing_def mixed_def

lemma sample_stats:
  "os_stat sample_env hello = Some \<lparr>st_mode = 0x81A4, st_size = 11\<rparr>"
  "os_stat sample_env secret = Some \<lparr>st_mode = 0x8000, st_size = 5\<rparr>"
  "os_stat sample_env script = Some \<lparr>st_mode = 0x81ED, st_size = 32\<rparr>"
  "os_stat sample_env archive = Some \<lparr>st_mode = 0x81A4, st_size = 23\<rparr>"
  "os_stat sample_env mixed = Some \<lparr>st_mode = 0x81A4, st_size = 10\<rparr>"
  "os_stat sample_env dangling = None"
  "os_stat sample_env missing = None"
  by (simp_all add: sample_fields sample_stat_def paths)

lemma sample_reads:
  "os_read sample_env hello = Some (ascii hello_text)"
  "os_read sample_env secret = None"
  "os_read sample_env script = Some (ascii script_text)"
  "os_read sample_env mixed = Some (ascii mixed_text)"
  by (simp_all add: sample_fields sample_read_def paths)

lemma sample_not_symlink:
  "\<not> is_symlink sample_env hello" "\<not> is_symlink sample_env secret"
  "\<not> is_symlink sample_env script" "\<not> is_symlink sample_env archive"
  "\<not> is_symlink sample_env mixed"
  by (simp_all add: is_symlink_def sample_fields sample_lstat_def sample_stat_def paths
      S_ISLNK_def S_IFMT_def)

lemma dangling_is_symlink: "is_symlink sample_env dangling"
  by (simp add: is_symlink_def sample_fields sample_lstat_def S_ISLNK_def S_IFMT_def)

lemma sample_modes:
  "S_ISREG 0x81A4" "S_ISREG 0x8000" "S_ISREG 0x81ED"
  "\<not> S_ISDIR 0x81A4" "\<not> S_ISDIR 0x8000" "\<not> S_ISDIR 0x81ED"
  "0x81A4 AND S_IXUSR = 0"
  by (simp_all add: S_ISREG_def S_ISDIR_def S_IFMT_def S_IXUSR_def)

lemma sample_names:
  "name hello = ''hello''" "name secret = ''secret''" "name script = ''script''"
  "name archive = ''archive.tar.gz''" "name mixed = ''mixed''"
  by (simp_all add: name_def paths)

lemma sample_decoded:
  "codec sample_env enc (ascii hello_text) = Some hello_text"
  "codec sample_env enc (ascii script_text) = Some script_text"
  "codec sample_env enc (ascii mixed_text) = Some mixed_text"
proof -
  have "list_all (\<lambda>b. b < 128) (ascii hello_text)"
    "list_all (\<lambda>b. b < 128) (ascii script_text)"
    "list_all (\<lambda>b. b < 128) (ascii mixed_text)"
    by (simp_all add: ascii_def hello_text_def script_text_def mixed_text_def newline_def)
  then show "codec sample_env enc (ascii hello_text) = Some hello_text"
    "codec sample_env enc (ascii script_text) = Some script_text"
    "codec sample_env enc (ascii mixed_text) = Some mixed_text"
    by (simp_all add: sample_fields ascii_codec_def latin_1_ascii)
qed

lemma sample_lengths:
  "length (ascii hello_text) \<le> 8192" "length (ascii script_text) \<le> 8192"
  "length (ascii mixed_text) \<le> 8192"
  by (simp_all add: ascii_def hello_text_def script_text_def mixed_text_def)

lemma sample_contents:
  "read_file_safely sample_env hello default_max_size = Some hello_text"
  "read_file_safely sample_env script default_max_size = Some script_text"
  "read_file_safely sample_env mixed default_max_size = Some mixed_text"
  by (rule read_file_safely_utf8 [OF sample_stats(1) sample_reads(1) sample_lengths(1) sample_decoded(1)]
      read_file_safely_utf8 [OF sample_stats(3) sample_reads(3) sample_lengths(2) sample_decoded(2)]
      read_file_safely_utf8 [OF sample_stats(5) sample_reads(4) sample_lengths(3) sample_decoded(3)])+

lemma secret_unreadable: "read_file_safely sample_env secret default_max_size = None"
  by (simp add: read_file_safely_def sample_stats sample_reads)

lemma sample_no_extension:
  "filesystem_tests sample_env (init m) hello = None"
  "filesystem_tests sample_env (init m) secret = None"
  "filesystem_tests sample_env (init m) script = None"
  "filesystem_tests sample_env (init m) mixed = None"
  by (simp_all add: filesystem_tests_regular [OF sample_stats(1)]
      filesystem_tests_regular [OF sample_stats(2)]
      filesystem_tests_regular [OF sample_stats(3)]
      filesystem_tests_regular [OF sample_stats(5)]
      sample_modes sample_not_symlink
      no_suffix_rules no_dot_suffix no_dot_suffixes sample_names)

subsection \<open>Scores of the sample texts\<close>

lemma hello_python_score:
  "re_search E = sre_search \<Longrightarrow>
   score_patterns E hello_text python_patterns (0, []) = (2, [[Chars ''print'', Star Space, Chars ''('']])"
  by (simp add: python_patterns_def indent_def quote_def hello_text_def matcher_simps)

lemma hello_javascript_score:
  "re_search E = sre_search \<Longrightarrow>
   score_patterns E hello_text javascript_patterns (0, []) = (0, [])"
  by (simp add: javascript_patterns_def indent_def quote_def hello_text_def matcher_simps)

lemma hello_java_score:
  "re_search E = sre_search \<Longrightarrow>
   score_patterns E hello_text java_patterns (0, []) = (0, [])"
  by (simp add: java_patterns_def indent_def quote_def hello_text_def matcher_simps)

lemma hello_c_score:
  "re_search E = sre_search \<Longrightarrow>
   score_patterns E hello_text c_patterns (0, []) = (0, [])"
  by (simp add: c_patterns_def indent_def quote_def hello_text_def matcher_simps)

lemma hello_cpp_score:
  "re_search E = sre_search \<Longrightarrow>
   score_patterns E hello_text cpp_patterns (0, []) = (0, [])"
  by (simp add: cpp_patterns_def indent_def quote_def hello_text_def matcher_simps)

lemma hello_html_score:
  "re_search E = sre_search \<Longrightarrow>
   score_patterns E hello_text html_patterns (0, []) = (0, [])"
  by (simp add: html_patterns_def indent_def quote_def hello_text_def matcher_simps)

lemma hello_css_score:
  "re_search E = sre_search \<Longrightarrow>
   score_patterns E hello_text css_patterns (0, []) = (0, [])"
  by (simp add: css_patterns_def indent_def quote_def hello_text_def matcher_simps)

lemma hello_no_category:
  "re_search E = sre_search \<Longrightarrow>
   pattern_detection E p hello_text build_language_patterns = None"
  by (simp add: build_language_patterns_def hello_python_score hello_javascript_score hello_java_score
      hello_c_score hello_cpp_score hello_html_score hello_css_score)

lemma mixed_python_score:
  "re_search E = sre_search \<Longrightarrow>
   score_patterns E mixed_text python_patterns (0, []) = (0, [])"
  by (simp add: python_patterns_def indent_def quote_def mixed_text_def matcher_simps)

lemma mixed_javascript_score:
  "re_search E = sre_search \<Longrightarrow>
   score_patterns E mixed_text javascript_patterns (0, []) = (0, [])"
  by (simp add: javascript_patterns_def indent_def quote_def mixed_text_def matcher_simps)

lemma mixed_java_score:
  "re_search E = sre_search \<Longrightarrow>
   score_patterns E mixed_text java_patterns (0, []) = (0, [])"
  by (simp add: java_patterns_def indent_def quote_def mixed_text_def matcher_simps)

lemma mixed_c_score:
  "re_search E = sre_search \<Longrightarrow>
   score_patterns E mixed_text c_patterns (0, []) = (0, [])"
  by (simp add: c_patterns_def indent_def quote_def mixed_text_def matcher_simps)

lemma mixed_cpp_score:
  "re_search E = sre_search \<Longrightarrow>
   score_patterns E mixed_text cpp_patterns (0, []) = (0, [])"
  by (simp add: cpp_patterns_def indent_def quote_def mixed_text_def matcher_simps)

lemma mixed_html_score:
  "re_search E = sre_search \<Longrightarrow>
   score_patterns E mixed_text html_patterns (0, []) = (0, [])"
  by (simp add: html_patterns_def indent_def quote_def mixed_text_def matcher_simps)

lemma mixed_css_score:
  "re_search E = sre_search \<Longrightarrow>
   score_patterns E mixed_text css_patterns (0, []) = (0, [])"
  by (simp add: css_patterns_def indent_def quote_def mixed_text_def matcher_simps)

lemma mixed_no_category:
  "re_search E = sre_search \<Longrightarrow>
   pattern_detection E p mixed_text build_language_patterns = None"
  by (simp add: build_language_patterns_def mixed_python_score mixed_javascript_score mixed_java_score
      mixed_c_score mixed_cpp_score mixed_html_score mixed_css_score)

subsection \<open>Stages on the sample files\<close>

lemma init_fields:
  "extension_map (init m) = build_extension_map" "shebang_map (init m) = build_shebang_map"
  "language_patterns (init m) = build_language_patterns" "magic (init m) = m"
  by (simp_all add: init_def)

lemma mixed_generic: "generic_text_detection E p mixed_text = None"
  by (simp add: generic_text_detection_def is_text_content_def mixed_text_def
      isprintable_def isspace_def)

lemma mixed_shebang: "shebang_check self p mixed_text = None"
  by (simp add: shebang_check_def mixed_text_def newline_def startswith_def)

lemma mixed_language: "language_tests sample_env (init None) mixed = None"
  by (simp add: language_tests_def sample_contents mixed_shebang init_fields
      mixed_no_category [OF sample_fields(5)] mixed_generic)

lemma mixed_binary: "binary_fallback sample_env mixed = None"
  by (simp add: binary_fallback_def is_file_def sample_stats sample_reads sample_modes
      mixed_text_def ascii_def appears_binary_def)

lemma secret_language:
  "language_tests sample_env (init None) secret =
     Some \<lparr>file_path = secret, file_type = BINARY, test_type = LANGUAGE,
           confidence = 8 / 10, details = Some ''Non-text content''\<rparr>"
  by (simp add: language_tests_def secret_unreadable)

section \<open>Properties of the detector\<close>

subsection \<open>The reader\<close>

lemma decode_first_total: "\<exists>text. decode_first E bs encodings = Some text"
  by (simp add: encodings_def decode_def split: option.splits)

lemma read_file_safely_None:
  "read_file_safely E p n = None \<longleftrightarrow> os_stat E p = None \<or> os_read E p = None"
proof (cases "os_stat E p")
  case None
  then show ?thesis by (simp add: read_file_safely_def)
next
  case st: (Some st)
  show ?thesis
  proof (cases "os_read E p")
    case None
    with st show ?thesis by (simp add: read_file_safely_def)
  next
    case bs: (Some bs)
    obtain t where
      "decode_first E (if st_size st > n then take 8192 bs else bs) encodings = Some t"
      using decode_first_total by blast
    with st bs show ?thesis by (simp add: read_file_safely_def)
  qed
qed

lemma language_tests_unreadable:
  "language_tests E self p =
     Some \<lparr>file_path = p, file_type = BINARY, test_type = LANGUAGE,
           confidence = 8 / 10, details = Some ''Non-text content''\<rparr>
   \<longleftrightarrow> read_file_safely E p default_max_size = None"
  unfolding language_tests_def
  by (auto split: option.splits
      dest: shebang_check_Some pattern_detection_Some generic_text_detection_Some)

subsection \<open>Confidence\<close>

text \<open>
  C4.  Every result of \<open>detect_file_type\<close>, whatever the environment, the tables and the
  path, has a confidence above 0 and at most 1.  The default fallback reports 1/10, and it
  is the result when the path exists and no stage and no binary check gives a result.
\<close>

theorem confidence_in_unit_interval:
  "0 < confidence (detect_file_type E self p) \<and>
   confidence (detect_file_type E self p) \<le> 1 \<and>
   confidence (default_fallback p) = 1 / 10 \<and>
   (path_exists E p \<longrightarrow> filesystem_tests E self p = None \<longrightarrow> magic_tests self p = None \<longrightarrow>
    language_tests E self p = None \<longrightarrow> binary_fallback E p = None \<longrightarrow>
    detect_file_type E self p = default_fallback p)"
proof -
  have "0 < confidence (detect_file_type E self p) \<and> confidence (detect_file_type E self p) \<le> 1"
    unfolding detect_file_type_def
    by (auto simp: default_fallback_def split: option.splits
        dest: filesystem_tests_conf magic_tests_Some language_tests_Some binary_fallback_Some)
  moreover have "confidence (default_fallback p) = 1 / 10"
    by (simp add: default_fallback_def)
  ultimately show ?thesis
    by (simp add: detect_file_type_def)
qed

theorem confidence_in_unit_interval_witness:
  "path_exists sample_env mixed \<and> filesystem_tests sample_env (init None) mixed = None \<and>
   magic_tests (init None) mixed = None \<and> language_tests sample_env (init None) mixed = None \<and>
   binary_fallback sample_env mixed = None \<and>
   detect_file_type sample_env (init None) mixed = default_fallback mixed \<and>
   confidence (detect_file_type sample_env (init None) mixed) = 1 / 10"
  using confidence_in_unit_interval [of sample_env "init None" mixed]
  by (simp add: path_exists_def sample_stats sample_no_extension magic_tests_absent
      mixed_language mixed_binary)

subsection \<open>Paths that do not exist\<close>





subsection \<open>The executable rule\<close>

text \<open>
  C9.  No result of the detector built by \<open>init\<close> carries the explanation
  "Executable file": none of the four suffixes the executable rule accepts is a key of
  the extension map, so the rule yields nothing, and no other branch uses that
  explanation.
\<close>

theorem executable_rule_unreachable:
  "map_of build_extension_map ''.exe'' = None \<and> map_of build_extension_map ''.dll'' = None \<and>
   map_of build_extension_map ''.so'' = None \<and> map_of build_extension_map ''.app'' = None \<and>
   executable_rule (init m) p st = None \<and>
   details (detect_file_type E (init m) p) \<noteq> Some ''Executable file''"
proof -
  have "details (detect_file_type E (init m) p) \<noteq> Some ''Executable file''"
    unfolding detect_file_type_def
    by (auto simp: default_fallback_def split: option.splits
        dest: filesystem_tests_init_details magic_tests_Some language_tests_Some
          binary_fallback_Some)
  then show ?thesis
    by (simp add: executable_rule_init build_extension_map_def)
qed

text \<open>An executable named \<open>tool.exe\<close> passes both guards of the rule, and the lookup
  finds nothing.\<close>

theorem executable_rule_unreachable_witness:
  "0x81ED AND S_IXUSR \<noteq> 0 \<and>
   lower (suffix [''tmp'', ''tool.exe'']) \<in> set [''.exe'', ''.dll'', ''.so'', ''.app''] \<and>
   map_of build_extension_map (lower (suffix [''tmp'', ''tool.exe''])) = None \<and>
   executable_rule (init None) [''tmp'', ''tool.exe''] \<lparr>st_mode = 0x81ED, st_size = 4\<rparr> = None"
  using executable_rule_unreachable
    [of None "[''tmp'', ''tool.exe'']" "\<lparr>st_mode = 0x81ED, st_size = 4\<rparr>" sample_env]
  by (simp add: S_IXUSR_def suffix_def name_def lower_def lower_char_table)

subsection \<open>Decoding and unreadable files\<close>

text \<open>
  C8.  The cascade of encodings decodes every byte sequence, since latin-1 does.  So the
  reader returns no text exactly when \<open>stat\<close> or the read fails, and the content stage
  reports "Non-text content" exactly in that case: never for a file that can be read.
\<close>

theorem decoding_never_fails:
  "(\<exists>text. decode_first E bs encodings = Some text) \<and>
   (read_file_safely E p n = None \<longleftrightarrow> os_stat E p = None \<or> os_read E p = None) \<and>
   (language_tests E self p =
      Some \<lparr>file_path = p, file_type = BINARY, test_type = LANGUAGE,
            confidence = 8 / 10, details = Some ''Non-text content''\<rparr>
    \<longleftrightarrow> os_stat E p = None \<or> os_read E p = None)"
proof -
  have "\<exists>text. decode_first E bs encodings = Some text"
    by (rule decode_first_total)
  then show ?thesis
    using language_tests_unreadable [of E self p] read_file_safely_None [of E p]
    by simp
qed

theorem decoding_never_fails_witness:
  "decode_first sample_env [0x81, 0xFF] encodings = Some [CHR 0x81, CHR 0xFF] \<and>
   codec sample_env ''utf-8'' [0x81, 0xFF] = None \<and>
   read_file_safely sample_env hello default_max_size \<noteq> None \<and>
   read_file_safely sample_env secret default_max_size = None"
  using decoding_never_fails [of sample_env "[0x81, 0xFF]" hello default_max_size "init None"]
    decoding_never_fails [of sample_env "[]" secret default_max_size "init None"]
  by (simp add: sample_stats sample_reads sample_fields(4) ascii_codec_def encodings_def
      decode_def latin_1_def char_of_eq_iff)

text \<open>
  C2, as the code has it.  When the read fails the content stage does give a result:
  BINARY with confidence 0.8 and the explanation "Non-text content".  If the path exists
  and the two earlier stages give nothing, that is the result of the detection; the final
  fallback is not reached.  The failure itself never leaves the detector: the result is
  a value.
\<close>

theorem unreadable_content_reported_binary:
  assumes "os_read E p = None"
  shows "language_tests E self p =
           Some \<lparr>file_path = p, file_type = BINARY, test_type = LANGUAGE,
                 confidence = 8 / 10, details = Some ''Non-text content''\<rparr> \<and>
         (path_exists E p \<longrightarrow> filesystem_tests E self p = None \<longrightarrow> magic_tests self p = None \<longrightarrow>
          detect_file_type E self p =
            \<lparr>file_path = p, file_type = BINARY, test_type = LANGUAGE,
             confidence = 8 / 10, details = Some ''Non-text content''\<rparr>)"
proof -
  have "read_file_safely E p default_max_size = None"
    using assms by (simp add: read_file_safely_None)
  then show ?thesis
    by (simp add: language_tests_def detect_file_type_def)
qed

theorem unreadable_content_reported_binary_witness:
  "os_read sample_env secret = None \<and> path_exists sample_env secret \<and>
   filesystem_tests sample_env (init None) secret = None \<and>
   magic_tests (init None) secret = None \<and>
   detect_file_type sample_env (init None) secret =
     \<lparr>file_path = secret, file_type = BINARY, test_type = LANGUAGE,
      confidence = 8 / 10, details = Some ''Non-text content''\<rparr>"
  using unreadable_content_reported_binary [OF sample_reads(2), of "init None"]
  by (simp add: path_exists_def sample_stats sample_reads sample_no_extension magic_tests_absent)

text \<open>
  As the specification states it, the property fails on the sample file \<open>secret\<close>, which \<open>stat\<close> sees and
  \<open>open\<close> refuses: the content stage gives a result, and the detection returns it
  instead of the default fallback.
\<close>

theorem unreadable_content_counterexample:
  "os_stat sample_env secret \<noteq> None \<and> os_read sample_env secret = None \<and>
   language_tests sample_env (init None) secret \<noteq> None \<and>
   detect_file_type sample_env (init None) secret \<noteq> default_fallback secret \<and>
   file_type (detect_file_type sample_env (init None) secret) = BINARY"
  by (simp add: sample_stats sample_reads secret_language detect_file_type_def path_exists_def
      sample_no_extension magic_tests_absent default_fallback_def)

subsection \<open>Weighted pattern scoring\<close>

lemma score_patterns_spec:
  "score_patterns E content ps (s, ms) =
     (s + spec_score E content ps, ms @ map fst (spec_matching E content ps))"
  by (induction ps arbitrary: s ms) (auto simp: spec_score_def spec_matching_def)

lemma pattern_detection_find:
  "pattern_detection E p content catalog =
     map_option (spec_result E p content)
       (find (\<lambda>entry. 3 \<le> spec_score E content (snd entry)) catalog)"
  by (induction catalog) (auto simp: score_patterns_spec spec_result_def)


lemma class_python_score:
  "re_search E = sre_search \<Longrightarrow>
   score_patterns E class_text python_patterns (0, []) =
     (3, [indent ''class'' @ [Plus Space, Plus Wordc]])"
  by (simp add: python_patterns_def indent_def quote_def class_text_def matcher_simps)

lemma class_cpp_score:
  "re_search E = sre_search \<Longrightarrow>
   score_patterns E class_text cpp_patterns (0, []) =
     (3, [indent ''class'' @ [Plus Space, Plus Wordc]])"
  by (simp add: cpp_patterns_def indent_def quote_def class_text_def matcher_simps)

lemma str_nat_digit: "n < 10 \<Longrightarrow> str_nat n = [digit n]"
  by (simp add: str_nat.simps)

text \<open>
  C1.  The scoring step returns a result exactly when some category of the catalog has a
  score of at least 3, the score being the sum of the weights of its matching patterns
  (searched with MULTILINE and IGNORECASE).  The result is that of the first such
  category in catalog order: every earlier category scores below 3.  Its confidence is
  min(score / 10, 1) and its explanation gives the number of matching patterns.  When the
  file decodes to this text and the shebang check gives nothing, it is the result of the
  content stage.
\<close>

theorem first_category_reaching_threshold:
  "(pattern_detection E p content catalog = Some r \<longleftrightarrow>
      (\<exists>i < length catalog.
          3 \<le> spec_score E content (snd (catalog ! i)) \<and>
          (\<forall>j < i. spec_score E content (snd (catalog ! j)) < 3) \<and>
          r = \<lparr>file_path = p, file_type = fst (catalog ! i), test_type = LANGUAGE,
               confidence = min (of_int (spec_score E content (snd (catalog ! i))) / 10) 1,
               details = Some (''Language patterns: '' @
                 str_nat (length (spec_matching E content (snd (catalog ! i)))) @
                 '' matches'')\<rparr>)) \<and>
   (pattern_detection E p content catalog = None \<longleftrightarrow>
      (\<forall>entry \<in> set catalog. spec_score E content (snd entry) < 3)) \<and>
   (read_file_safely E p default_max_size = Some content \<longrightarrow>
    shebang_check self p content = None \<longrightarrow>
    pattern_detection E p content (language_patterns self) = Some r \<longrightarrow>
    language_tests E self p = Some r)"
proof -
  let ?P = "\<lambda>entry. 3 \<le> spec_score E content (snd entry)"
  have "pattern_detection E p content catalog = Some r \<longleftrightarrow>
          (\<exists>entry. find ?P catalog = Some entry \<and> r = spec_result E p content entry)"
    by (auto simp: pattern_detection_find)
  also have "\<dots> \<longleftrightarrow>
          (\<exists>i < length catalog. ?P (catalog ! i) \<and> (\<forall>j < i. \<not> ?P (catalog ! j)) \<and>
             r = spec_result E p content (catalog ! i))"
    unfolding find_Some_iff by blast
  finally have first: "pattern_detection E p content catalog = Some r \<longleftrightarrow>
          (\<exists>i < length catalog. ?P (catalog ! i) \<and> (\<forall>j < i. \<not> ?P (catalog ! j)) \<and>
             r = spec_result E p content (catalog ! i))" .
  have none: "pattern_detection E p content catalog = None \<longleftrightarrow>
          (\<forall>entry \<in> set catalog. spec_score E content (snd entry) < 3)"
    by (fastforce simp: pattern_detection_find find_None_iff not_le)
  have stage: "read_file_safely E p default_max_size = Some content \<longrightarrow>
      shebang_check self p content = None \<longrightarrow>
      pattern_detection E p content (language_patterns self) = Some r \<longrightarrow>
      language_tests E self p = Some r"
    by (simp add: language_tests_def)
  from first none stage show ?thesis
    by (simp add: spec_result_def not_le)
qed

theorem first_category_reaching_threshold_witness:
  "3 \<le> spec_score sample_env class_text (snd (build_language_patterns ! 0)) \<and>
   3 \<le> spec_score sample_env class_text (snd (build_language_patterns ! 4)) \<and>
   fst (build_language_patterns ! 0) = PYTHON \<and> fst (build_language_patterns ! 4) = CPP \<and>
   pattern_detection sample_env hello class_text build_language_patterns =
     Some \<lparr>file_path = hello, file_type = PYTHON, test_type = LANGUAGE,
           confidence = 3 / 10, details = Some ''Language patterns: 1 matches''\<rparr>"
proof -
  have py: "spec_score sample_env class_text python_patterns = 3"
    "length (spec_matching sample_env class_text python_patterns) = 1"
    using class_python_score [OF sample_fields(5)]
      score_patterns_spec [of sample_env class_text python_patterns 0 "[]"]
    by (auto dest: arg_cong [where f = length])
  have cpp: "spec_score sample_env class_text cpp_patterns = 3"
    using class_cpp_score [OF sample_fields(5)]
      score_patterns_spec [of sample_env class_text cpp_patterns 0 "[]"]
    by simp
  have entries: "build_language_patterns ! 0 = (PYTHON, python_patterns)"
    "build_language_patterns ! 4 = (CPP, cpp_patterns)"
    "build_language_patterns \<noteq> []"
    by (simp_all add: build_language_patterns_def)
  have one: "str_nat (Suc 0) = ''1''"
    by (simp add: str_nat_digit digit_def char_of_eq_iff)
  let ?r = "\<lparr>file_path = hello, file_type = PYTHON, test_type = LANGUAGE,
           confidence = 3 / 10, details = Some ''Language patterns: 1 matches''\<rparr>"
  have "\<exists>i < length build_language_patterns.
          3 \<le> spec_score sample_env class_text (snd (build_language_patterns ! i)) \<and>
          (\<forall>j < i. spec_score sample_env class_text (snd (build_language_patterns ! j)) < 3) \<and>
          ?r = \<lparr>file_path = hello, file_type = fst (build_language_patterns ! i),
               test_type = LANGUAGE,
               confidence =
                 min (of_int (spec_score sample_env class_text
                   (snd (build_language_patterns ! i))) / 10) 1,
               details = Some (''Language patterns: '' @
                 str_nat (length (spec_matching sample_env class_text
                   (snd (build_language_patterns ! i)))) @ '' matches'')\<rparr>"
    by (rule exI [of _ 0]) (simp add: entries py one)
  then have "pattern_detection sample_env hello class_text build_language_patterns = Some ?r"
    using first_category_reaching_threshold
      [of sample_env hello class_text build_language_patterns ?r "init None"]
    by blast
  then show ?thesis
    by (simp add: entries py cpp)
qed

subsection \<open>The text \<open>print('hi')\<close>\<close>

lemma hello_shebang: "shebang_check self p hello_text = None"
  by (simp add: shebang_check_def hello_text_def newline_def startswith_def)

lemma hello_yaml: "\<not> sre_search yaml_pattern hello_text [MULTILINE]"
  by (simp add: yaml_pattern_def hello_text_def sre_search_def newline_def)

lemma hello_generic:
  "re_search E = sre_search \<Longrightarrow>
   generic_text_detection E p hello_text =
     Some \<lparr>file_path = p, file_type = TEXT, test_type = LANGUAGE,
           confidence = 6 / 10, details = None\<rparr>"
  using hello_yaml
  by (simp add: generic_text_detection_def yaml_csv_text_def is_text_content_def
      strip_def startswith_def endswith_def hello_text_def isprintable_def isspace_def)

lemma hello_language:
  assumes "read_file_safely E p default_max_size = Some hello_text"
    and "re_search E = sre_search"
  shows "language_tests E (init m) p =
           Some \<lparr>file_path = p, file_type = TEXT, test_type = LANGUAGE,
                 confidence = 6 / 10, details = None\<rparr>"
  using assms hello_no_category [OF assms(2), of p] hello_generic [OF assms(2), of p]
  by (simp add: language_tests_def hello_shebang init_fields)

lemma hello_length: "length (ascii hello_text) \<le> 8192"
  by (simp add: ascii_def hello_text_def)

text \<open>
  C3, as the code has it.  On the text \<open>print('hi')\<close> only the print-call pattern of the
  Python set matches; its weight is 2, so the Python score is 2, below the threshold, and
  no category of the catalog reaches 3.  For a non-empty regular file with this content
  and a name without a dot, when the signature stage gives nothing, the result is TEXT from
  the content stage with confidence 0.6 and no explanation.
\<close>

theorem print_hi_is_plain_text:
  assumes "os_stat E p = Some st" and "S_ISREG (st_mode st)" and "\<not> is_symlink E p"
    and "st_size st \<noteq> 0"
    and "CHR ''.'' \<notin> set (name p)"
    and "os_read E p = Some (ascii hello_text)"
    and "codec E ''utf-8'' (ascii hello_text) = Some hello_text"
    and "re_search E = sre_search"
    and "magic_tests (init m) p = None"
  shows "score_patterns E hello_text python_patterns (0, []) =
           (2, [[Chars ''print'', Star Space, Chars ''('']]) \<and>
         pattern_detection E p hello_text build_language_patterns = None \<and>
         detect_file_type E (init m) p =
           \<lparr>file_path = p, file_type = TEXT, test_type = LANGUAGE,
            confidence = 6 / 10, details = None\<rparr>"
proof -
  have fs: "filesystem_tests E (init m) p = None"
    using assms(1-5)
    by (simp add: filesystem_tests_regular S_ISREG_not_DIR no_suffix_rules
        no_dot_suffix no_dot_suffixes)
  have "read_file_safely E p default_max_size = Some hello_text"
    using assms(1,6) hello_length assms(7) by (rule read_file_safely_utf8)
  then have "language_tests E (init m) p =
      Some \<lparr>file_path = p, file_type = TEXT, test_type = LANGUAGE,
            confidence = 6 / 10, details = None\<rparr>"
    using assms(8) by (rule hello_language)
  with fs assms(1,9) have "detect_file_type E (init m) p =
      \<lparr>file_path = p, file_type = TEXT, test_type = LANGUAGE,
       confidence = 6 / 10, details = None\<rparr>"
    by (simp add: detect_file_type_def path_exists_def)
  with hello_python_score [OF assms(8)] hello_no_category [OF assms(8), of p]
  show ?thesis by simp
qed

theorem print_hi_is_plain_text_witness:
  "os_stat sample_env hello = Some \<lparr>st_mode = 0x81A4, st_size = 11\<rparr> \<and>
   S_ISREG 0x81A4 \<and> \<not> is_symlink sample_env hello \<and> CHR ''.'' \<notin> set (name hello) \<and>
   os_read sample_env hello = Some (ascii hello_text) \<and>
   codec sample_env ''utf-8'' (ascii hello_text) = Some hello_text \<and>
   re_search sample_env = sre_search \<and> magic_tests (init None) hello = None \<and>
   detect_file_type sample_env (init None) hello =
     \<lparr>file_path = hello, file_type = TEXT, test_type = LANGUAGE,
      confidence = 6 / 10, details = None\<rparr>"
proof -
  have reg: "S_ISREG (st_mode \<lparr>st_mode = 0x81A4, st_size = 11\<rparr>)"
    and size: "st_size \<lparr>st_mode = 0x81A4, st_size = 11\<rparr> \<noteq> 0"
    and dot: "CHR ''.'' \<notin> set (name hello)"
    by (simp_all add: sample_modes sample_names)
  show ?thesis
    using print_hi_is_plain_text [OF sample_stats(1) reg sample_not_symlink(1) size dot
        sample_reads(1) sample_decoded(1) sample_fields(5) magic_tests_absent]
    by (simp add: sample_stats sample_modes sample_not_symlink dot sample_reads
        sample_decoded sample_fields(5) magic_tests_absent)
qed

text \<open>
  As the specification states it, the example fails on the sample file \<open>hello\<close>: the Python score of its content is
  2, not 3 or more, and the detection returns TEXT, not PYTHON.
\<close>

theorem print_hi_counterexample:
  "fst (score_patterns sample_env hello_text python_patterns (0, [])) = 2 \<and>
   read_file_safely sample_env hello default_max_size = Some hello_text \<and>
   file_type (detect_file_type sample_env (init None) hello) = TEXT"
proof -
  have "language_tests sample_env (init None) hello =
      Some \<lparr>file_path = hello, file_type = TEXT, test_type = LANGUAGE,
            confidence = 6 / 10, details = None\<rparr>"
    using sample_contents(1) sample_fields(5) by (rule hello_language)
  then show ?thesis
    by (simp add: hello_python_score [OF sample_fields(5)] sample_contents
        detect_file_type_def path_exists_def sample_stats sample_no_extension
        magic_tests_absent)
qed

subsection \<open>Shebang lines\<close>









subsection \<open>Compound suffixes\<close>







end
